theory Spec2Isabelle
  imports Complex_Main "HOL-Library.Word"
begin

section \<open>JavaScript numbers\<close>

text \<open>
  The values that \<^verbatim>\<open>website/js/App.js\<close> computes with are JavaScript numbers. A finite
  number is modelled by the real it denotes; the two infinities and NaN are kept apart,
  because a division by a zero column count produces them and the comparisons of the
  bounds check treat them specially. Rounding, overflow to infinity and the sign of zero
  are not modelled: every divisor of the program is a count delivered by the engine or
  the literal 2, so no negative zero arises as a divisor.
\<close>

datatype jsnum = Fin real | PosInf | NegInf | NaN

definition js_of_nat :: "nat \<Rightarrow> jsnum" where
  "js_of_nat n = Fin (real n)"

definition inf_signed :: "real \<Rightarrow> jsnum" where
  "inf_signed r = (if r = 0 then NaN else if 0 < r then PosInf else NegInf)"

text \<open>The operator \<^verbatim>\<open>a > b\<close>: false as soon as one side is NaN.\<close>

fun js_gt :: "jsnum \<Rightarrow> jsnum \<Rightarrow> bool" where
  "js_gt NaN _ = False"
| "js_gt _ NaN = False"
| "js_gt (Fin a) (Fin b) = (b < a)"
| "js_gt (Fin a) PosInf = False"
| "js_gt (Fin a) NegInf = True"
| "js_gt PosInf PosInf = False"
| "js_gt PosInf _ = True"
| "js_gt NegInf _ = False"

text \<open>The operators \<^verbatim>\<open>a < b\<close> and \<^verbatim>\<open>a <= b\<close>.\<close>

definition js_lt :: "jsnum \<Rightarrow> jsnum \<Rightarrow> bool" where
  "js_lt a b = js_gt b a"

fun js_le :: "jsnum \<Rightarrow> jsnum \<Rightarrow> bool" where
  "js_le NaN _ = False"
| "js_le _ NaN = False"
| "js_le (Fin a) (Fin b) = (a \<le> b)"
| "js_le (Fin a) PosInf = True"
| "js_le (Fin a) NegInf = False"
| "js_le NegInf _ = True"
| "js_le PosInf PosInf = True"
| "js_le PosInf _ = False"

fun js_add :: "jsnum \<Rightarrow> jsnum \<Rightarrow> jsnum" where
  "js_add NaN _ = NaN"
| "js_add _ NaN = NaN"
| "js_add (Fin a) (Fin b) = Fin (a + b)"
| "js_add (Fin a) b = b"
| "js_add a (Fin b) = a"
| "js_add PosInf PosInf = PosInf"
| "js_add NegInf NegInf = NegInf"
| "js_add _ _ = NaN"

fun js_neg :: "jsnum \<Rightarrow> jsnum" where
  "js_neg (Fin a) = Fin (- a)"
| "js_neg PosInf = NegInf"
| "js_neg NegInf = PosInf"
| "js_neg NaN = NaN"

definition js_sub :: "jsnum \<Rightarrow> jsnum \<Rightarrow> jsnum" where
  "js_sub a b = js_add a (js_neg b)"

fun js_mul :: "jsnum \<Rightarrow> jsnum \<Rightarrow> jsnum" where
  "js_mul NaN _ = NaN"
| "js_mul _ NaN = NaN"
| "js_mul (Fin a) (Fin b) = Fin (a * b)"
| "js_mul (Fin a) PosInf = inf_signed a"
| "js_mul (Fin a) NegInf = inf_signed (- a)"
| "js_mul PosInf (Fin b) = inf_signed b"
| "js_mul NegInf (Fin b) = inf_signed (- b)"
| "js_mul PosInf PosInf = PosInf"
| "js_mul NegInf NegInf = PosInf"
| "js_mul _ _ = NegInf"

fun js_div :: "jsnum \<Rightarrow> jsnum \<Rightarrow> jsnum" where
  "js_div NaN _ = NaN"
| "js_div _ NaN = NaN"
| "js_div (Fin a) (Fin b) = (if b = 0 then inf_signed a else Fin (a / b))"
| "js_div (Fin a) _ = Fin 0"
| "js_div PosInf (Fin b) = (if 0 \<le> b then PosInf else NegInf)"
| "js_div NegInf (Fin b) = (if 0 \<le> b then NegInf else PosInf)"
| "js_div _ _ = NaN"

text \<open>\<^verbatim>\<open>Math.floor\<close>.\<close>

fun js_floor :: "jsnum \<Rightarrow> jsnum" where
  "js_floor (Fin a) = Fin (of_int \<lfloor>a\<rfloor>)"
| "js_floor a = a"

text \<open>
  The operator \<^verbatim>\<open>a % b\<close>: the remainder of the division truncated towards zero, with
  the sign of the dividend; NaN when the divisor is zero or the dividend is infinite.
\<close>

definition trunc :: "real \<Rightarrow> int" where
  "trunc r = (if 0 \<le> r then \<lfloor>r\<rfloor> else \<lceil>r\<rceil>)"

fun js_rem :: "jsnum \<Rightarrow> jsnum \<Rightarrow> jsnum" where
  "js_rem (Fin a) (Fin b) = (if b = 0 then NaN else Fin (a - b * of_int (trunc (a / b))))"
| "js_rem (Fin a) PosInf = Fin a"
| "js_rem (Fin a) NegInf = Fin a"
| "js_rem _ _ = NaN"


section \<open>The drawing surface\<close>

text \<open>
  The 2D context of the canvas element is an object of the browser. Its state is the
  sequence of the calls and property assignments the program has made on it, oldest
  first. The text handed to \<^verbatim>\<open>fillText\<close> is the score, kept as the number it is.
\<close>

datatype ctx_call =
    ClearRect jsnum jsnum jsnum jsnum
  | SetGlobalCompositeOperation string
  | SetLineWidth jsnum
  | SetStrokeStyle string
  | StrokeRect jsnum jsnum jsnum jsnum
  | BeginPath
  | Arc jsnum jsnum jsnum jsnum jsnum bool
  | Rect jsnum jsnum jsnum jsnum
  | SetFillStyle string
  | Fill
  | SetFont string
  | FillText int jsnum jsnum

text \<open>The canvas element handed to \<^verbatim>\<open>Game.new\<close>: its pixel size and its context.\<close>

record element =
  elem_width :: nat
  elem_height :: nat
  elem_ctx :: "ctx_call list"

text \<open>The fields of class \<^verbatim>\<open>Canvas\<close>.\<close>

record canvas =
  ctx :: "ctx_call list"
  cols :: jsnum
  rows :: jsnum
  width :: jsnum
  height :: jsnum
  colWidth :: jsnum
  rowHeight :: jsnum

text \<open>
  What the program throws: the \<^verbatim>\<open>Error\<close> of the two bounds checks, with the
  coordinates of its message, and the \<^verbatim>\<open>RangeError\<close> of a typed-array view that does
  not fit its buffer. Nothing in the file catches either, so a throw ends the running
  call of \<^verbatim>\<open>run\<close>; the surface as drawn so far travels with the error.
\<close>

datatype error = OutOfBounds jsnum jsnum | RangeError

type_synonym drawn = "(error \<times> canvas) + canvas"

definition Canvas_new :: "element \<Rightarrow> jsnum \<Rightarrow> jsnum \<Rightarrow> canvas" where
  "Canvas_new can ncols nrows =
     \<lparr>ctx = elem_ctx can,
      cols = ncols,
      rows = nrows,
      width = js_of_nat (elem_width can),
      height = js_of_nat (elem_height can),
      colWidth = js_div (js_of_nat (elem_width can)) ncols,
      rowHeight = js_div (js_of_nat (elem_height can)) nrows\<rparr>"

definition clear :: "canvas \<Rightarrow> canvas" where
  "clear c = c\<lparr>ctx := ctx c @ [ClearRect (Fin 0) (Fin 0) (width c) (height c)]\<rparr>"

definition drawBorder :: "canvas \<Rightarrow> canvas" where
  "drawBorder c =
     c\<lparr>ctx := ctx c @
        [SetGlobalCompositeOperation ''source-over'',
         SetLineWidth (Fin 5),
         SetStrokeStyle ''#000000'',
         StrokeRect (Fin 0) (Fin 0) (width c) (height c)]\<rparr>"

text \<open>
  A colour argument is a string or missing (\<open>None\<close>); \<^verbatim>\<open>!color\<close> holds for a missing
  one and for the empty string.
\<close>

definition color_or_navy :: "string option \<Rightarrow> string" where
  "color_or_navy color = (case color of None \<Rightarrow> ''navy'' | Some s \<Rightarrow> (if s = [] then ''navy'' else s))"

definition drawBall :: "jsnum \<Rightarrow> jsnum \<Rightarrow> string option \<Rightarrow> canvas \<Rightarrow> drawn" where
  "drawBall x y color c =
     (if js_gt x (cols c) \<or> js_gt y (rows c) then Inl (OutOfBounds x y, c)
      else
        let color' = color_or_navy color;
            x' = js_mul (colWidth c) (js_add x (Fin 0.5));
            y' = js_mul (rowHeight c) (js_add y (Fin 0.5))
        in Inr (c\<lparr>ctx := ctx c @
              [BeginPath,
               Arc x' y' (js_div (rowHeight c) (Fin 2)) (Fin 0) (js_mul (Fin 2) (Fin pi)) False,
               SetFillStyle color',
               Fill]\<rparr>))"

definition drawBlock :: "jsnum \<Rightarrow> jsnum \<Rightarrow> string option \<Rightarrow> canvas \<Rightarrow> drawn" where
  "drawBlock x y color c =
     (if js_gt x (cols c) \<or> js_gt y (rows c) then Inl (OutOfBounds x y, c)
      else
        let color' = color_or_navy color;
            x' = js_mul (colWidth c) x;
            y' = js_mul (rowHeight c) y
        in Inr (c\<lparr>ctx := ctx c @
              [BeginPath,
               Rect x' y' (colWidth c) (rowHeight c),
               SetFillStyle color',
               Fill]\<rparr>))"

definition drawScore :: "int \<Rightarrow> canvas \<Rightarrow> canvas" where
  "drawScore score c =
     c\<lparr>ctx := ctx c @
        [SetFont ''25px Arial'',
         SetFillStyle ''0,0,0'',
         FillText score
           (js_mul (js_sub (cols c) (Fin 3)) (colWidth c))
           (js_mul (Fin 1.75) (rowHeight c))]\<rparr>"


section \<open>The engine and its memory\<close>

text \<open>
  Modelled from the spec: the compiled module \<^verbatim>\<open>../pkg/index\<close> and its memory
  \<^verbatim>\<open>../pkg/index_bg\<close> are not part of the sources. They are a parameter: a state type
  \<open>'s\<close>, a move type \<open>'m\<close> and the operations that \<^verbatim>\<open>App.js\<close> calls. As the spec
  has it (sections 3 and 4.1) the accessors only read, the dimensions, the pointer and the
  length are counts, and the score is an integer; \<^verbatim>\<open>step\<close> answers a move or
  \<^verbatim>\<open>undefined\<close> (\<open>None\<close>) and, like \<^verbatim>\<open>input\<close>, may change the engine.
\<close>

record ('s, 'm) rust =
  game_new :: 's
  game_step :: "'s \<Rightarrow> 'm option \<times> 's"
  game_input :: "'m \<Rightarrow> 's \<Rightarrow> 's"
  game_score :: "'s \<Rightarrow> int"
  game_cols :: "'s \<Rightarrow> nat"
  game_rows :: "'s \<Rightarrow> nat"
  game_display :: "'s \<Rightarrow> nat"
  game_display_len :: "'s \<Rightarrow> nat"
  wasm_memory :: "'s \<Rightarrow> 8 word list"

text \<open>
  \<^verbatim>\<open>new Uint8Array(buffer, byteOffset, length)\<close>: a view of \<open>length\<close> bytes of the
  buffer from \<open>byteOffset\<close> on, or a \<^verbatim>\<open>RangeError\<close> when the buffer is too short. The
  view aliases the buffer; nothing writes to the buffer while the view is read, so the
  view is the list of the bytes it shows.
\<close>

definition Uint8Array :: "8 word list \<Rightarrow> nat \<Rightarrow> nat \<Rightarrow> error + 8 word list" where
  "Uint8Array buffer byteOffset len =
     (if byteOffset + len \<le> length buffer then Inr (take len (drop byteOffset buffer))
      else Inl RangeError)"

text \<open>
  \<^verbatim>\<open>display.forEach(callback)\<close>: the callback on each byte with its index, in index
  order; a throw of the callback ends the iteration.
\<close>

fun forEach :: "(8 word \<Rightarrow> nat \<Rightarrow> canvas \<Rightarrow> drawn) \<Rightarrow> 8 word list \<Rightarrow> nat \<Rightarrow> canvas \<Rightarrow> drawn" where
  "forEach f [] i c = Inr c"
| "forEach f (byte # bytes) i c =
     (case f byte i c of
        Inl thrown \<Rightarrow> Inl thrown
      | Inr c' \<Rightarrow> forEach f bytes (Suc i) c')"


section \<open>The game\<close>

text \<open>The fields of class \<^verbatim>\<open>Game\<close>; the memory of field \<^verbatim>\<open>wasm\<close> is read through the engine.\<close>

record 's Game =
  game :: 's
  canvas :: canvas

definition Game_new :: "element \<Rightarrow> ('s, 'm) rust \<Rightarrow> 's Game" where
  "Game_new can R =
     \<lparr>game = game_new R,
      canvas = Canvas_new can (js_of_nat (game_cols R (game_new R))) (js_of_nat (game_rows R (game_new R)))\<rparr>"

text \<open>The two coordinates that the callback of \<^verbatim>\<open>render\<close> computes from an index.\<close>

definition cell_y :: "jsnum \<Rightarrow> nat \<Rightarrow> jsnum" where
  "cell_y ncols i = js_floor (js_div (js_of_nat i) ncols)"

definition cell_x :: "jsnum \<Rightarrow> nat \<Rightarrow> jsnum" where
  "cell_x ncols i = js_rem (js_of_nat i) ncols"

text \<open>The callback of \<^verbatim>\<open>render\<close>: a byte that none of the five tests matches draws nothing.\<close>

definition render_cell :: "jsnum \<Rightarrow> 8 word \<Rightarrow> nat \<Rightarrow> canvas \<Rightarrow> drawn" where
  "render_cell ncols byte i c =
     (let y = cell_y ncols i;
          x = cell_x ncols i
      in if byte = 0 then Inr c
         else if byte = 1 then drawBlock x y (Some ''black'') c
         else if byte = 2 then drawBlock x y (Some ''navy'') c
         else if byte = 3 then drawBlock x y (Some ''navy'') c
         else if byte = 4 then drawBall x y (Some ''red'') c
         else Inr c)"

definition render :: "('s, 'm) rust \<Rightarrow> 's Game \<Rightarrow> drawn" where
  "render R g =
     (let c1 = clear (canvas g);
          c2 = drawBorder c1;
          c3 = drawScore (game_score R (game g)) c2
      in case Uint8Array (wasm_memory R (game g)) (game_display R (game g))
                (game_display_len R (game g)) of
           Inl e \<Rightarrow> Inl (e, c3)
         | Inr display \<Rightarrow>
             let ncols = js_of_nat (game_cols R (game g))
             in forEach (render_cell ncols) display 0 c3)"

text \<open>
  \<^verbatim>\<open>run\<close> calls the engine and \<^verbatim>\<open>render\<close> and then hands itself to \<^verbatim>\<open>setTimeout\<close>,
  so it may go on for ever. The model counts the calls of \<^verbatim>\<open>run\<close> that have started:
  \<open>run R n g\<close> is what the first \<open>n\<close> of them do. It returns the engine calls made, in
  order and each with the engine state it met, how the last call ended, and the game
  after it. \<open>Pending\<close> says that the timer is set and the next call has not started.
\<close>

datatype ('s, 'm) event =
    Decide 's "'m option"
  | Render 's "error option"
  | Commit 's 'm

datatype outcome = Stopped | Threw error | Pending

fun run :: "('s, 'm) rust \<Rightarrow> nat \<Rightarrow> 's Game \<Rightarrow> ('s, 'm) event list \<times> outcome \<times> 's Game" where
  "run R 0 g = ([], Pending, g)"
| "run R (Suc n) g =
     (case game_step R (game g) of
        (None, s) \<Rightarrow> ([Decide s None], Stopped, g\<lparr>game := s\<rparr>)
      | (Some next_move, s) \<Rightarrow>
          (case render R (g\<lparr>game := s\<rparr>) of
             Inl (e, c) \<Rightarrow>
               ([Decide s (Some next_move), Render s (Some e)], Threw e, \<lparr>game = s, canvas = c\<rparr>)
           | Inr c \<Rightarrow>
               (case run R n \<lparr>game = game_input R next_move s, canvas = c\<rparr> of
                  (evs, out, g') \<Rightarrow>
                    (Decide s (Some next_move) # Render s None # Commit s next_move # evs, out, g'))))"


section \<open>What a trace and a drawing must look like\<close>

text \<open>
  The surface that a drawing leaves behind, whether it ended with a throw or not.
\<close>

definition surface :: "drawn \<Rightarrow> canvas" where
  "surface d = (case d of Inl (e, c) \<Rightarrow> c | Inr c \<Rightarrow> c)"

text \<open>
  The order of the spec (section 5): a trace is a sequence of whole cycles, each one
  decide, render, commit on one and the same engine state and with the decided move,
  and it may end with a decide that found no move, or with a render that threw.
\<close>

fun cycles :: "('s, 'm) event list \<Rightarrow> bool" where
  "cycles [] = True"
| "cycles [Decide s None] = True"
| "cycles [Decide s (Some m), Render s' (Some e)] = (s' = s)"
| "cycles (Decide s (Some m) # Render s' None # Commit s'' m' # evs) =
     (s' = s \<and> s'' = s \<and> m' = m \<and> cycles evs)"
| "cycles _ = False"

text \<open>
  The second sentence of the spec (section 8): no two renders and no two commits without
  a decide in between. The two flags say whether a render, and whether a commit, has
  happened since the last decide.
\<close>

fun no_repeat :: "bool \<Rightarrow> bool \<Rightarrow> ('s, 'm) event list \<Rightarrow> bool" where
  "no_repeat rendered committed [] = True"
| "no_repeat rendered committed (Decide s r # evs) = no_repeat False False evs"
| "no_repeat rendered committed (Render s e # evs) = (\<not> rendered \<and> no_repeat True committed evs)"
| "no_repeat rendered committed (Commit s m # evs) = (\<not> committed \<and> no_repeat rendered True evs)"

text \<open>
  What the calls of a trace do when they are made one after the other on a game: a
  decide is the \<^verbatim>\<open>step\<close> of the engine and must give the logged answer, a render is
  \<^verbatim>\<open>render\<close> on the game as it is then and replaces the surface, a commit is
  \<^verbatim>\<open>input\<close> with the logged move and replaces the engine state. The result is the
  game after the last call, or \<open>None\<close> when a logged state, answer or error is not the one
  met. A render so comes before the commit of its cycle and sees the engine that the
  commit has not yet changed.
\<close>

fun replay :: "('s, 'm) rust \<Rightarrow> 's Game \<Rightarrow> ('s, 'm) event list \<Rightarrow> 's Game option" where
  "replay R g [] = Some g"
| "replay R g (Decide s r # evs) =
     (if game_step R (game g) = (r, s) then replay R (g\<lparr>game := s\<rparr>) evs else None)"
| "replay R g (Render s e # evs) =
     (if s = game g then
        (case render R g of
           Inl (e', c) \<Rightarrow> (if e = Some e' then replay R (g\<lparr>canvas := c\<rparr>) evs else None)
         | Inr c \<Rightarrow> (if e = None then replay R (g\<lparr>canvas := c\<rparr>) evs else None))
      else None)"
| "replay R g (Commit s m # evs) =
     (if s = game g then replay R (g\<lparr>game := game_input R m s\<rparr>) evs else None)"

text \<open>
  The memory view accessor of the spec (section 4.2), read through rather than copied:
  the callback on the \<open>n\<close> bytes that the buffer holds from address \<open>a\<close> on, each byte
  fetched from the buffer when its turn comes, with the indices counted from \<open>i\<close>.
\<close>

fun read_cells ::
  "(8 word \<Rightarrow> nat \<Rightarrow> canvas \<Rightarrow> drawn) \<Rightarrow> 8 word list \<Rightarrow> nat \<Rightarrow> nat \<Rightarrow> nat \<Rightarrow> canvas \<Rightarrow> drawn" where
  "read_cells f buffer a 0 i c = Inr c"
| "read_cells f buffer a (Suc n) i c =
     (case f (buffer ! a) i c of
        Inl thrown \<Rightarrow> Inl thrown
      | Inr c' \<Rightarrow> read_cells f buffer (Suc a) n (Suc i) c')"


section \<open>An engine for examples\<close>

text \<open>
  The engine of the end-to-end example of the spec (section 8): two columns, one row, the
  frame bytes 0 and 4, one move and then none. Its state is the number of moves left,
  its score is 42. The second engine shows the same frame at another address of a longer
  memory.
\<close>

definition stub :: "(nat, unit) rust" where
  "stub =
     \<lparr>game_new = 1,
      game_step = (\<lambda>s. (if s = 0 then None else Some (), s)),
      game_input = (\<lambda>m s. s - 1),
      game_score = (\<lambda>s. 42),
      game_cols = (\<lambda>s. 2),
      game_rows = (\<lambda>s. 1),
      game_display = (\<lambda>s. 0),
      game_display_len = (\<lambda>s. 2),
      wasm_memory = (\<lambda>s. [0, 4])\<rparr>"

definition stub_moved :: "(nat, unit) rust" where
  "stub_moved = stub\<lparr>game_display := (\<lambda>s. 1), wasm_memory := (\<lambda>s. [7, 0, 4])\<rparr>"

definition stub_element :: element where
  "stub_element = \<lparr>elem_width = 200, elem_height = 100, elem_ctx = []\<rparr>"

definition stub_canvas :: canvas where
  "stub_canvas =
     \<lparr>ctx = [], cols = Fin 2, rows = Fin 1, width = Fin 200, height = Fin 100,
      colWidth = Fin 100, rowHeight = Fin 100\<rparr>"

definition stub_frame :: "ctx_call list" where
  "stub_frame =
     [ClearRect (Fin 0) (Fin 0) (Fin 200) (Fin 100),
      SetGlobalCompositeOperation ''source-over'',
      SetLineWidth (Fin 5),
      SetStrokeStyle ''#000000'',
      StrokeRect (Fin 0) (Fin 0) (Fin 200) (Fin 100),
      SetFont ''25px Arial'',
      SetFillStyle ''0,0,0'',
      FillText 42 (Fin (- 100)) (Fin 175),
      BeginPath,
      Arc (Fin 150) (Fin 50) (Fin 50) (Fin 0) (Fin (2 * pi)) False,
      SetFillStyle ''red'',
      Fill]"

text \<open>
  A third engine, whose commit changes the frame: the target is at cell (1, 0) as long as
  a move is left and at cell (0, 0) afterwards. The frame of the state without moves
  differs from \<open>stub_frame\<close> in the centre of the circle.
\<close>

definition stub_flip :: "(nat, unit) rust" where
  "stub_flip = stub\<lparr>wasm_memory := (\<lambda>s. if s = 0 then [4, 0] else [0, 4])\<rparr>"

definition stub_frame_after :: "ctx_call list" where
  "stub_frame_after =
     [ClearRect (Fin 0) (Fin 0) (Fin 200) (Fin 100),
      SetGlobalCompositeOperation ''source-over'',
      SetLineWidth (Fin 5),
      SetStrokeStyle ''#000000'',
      StrokeRect (Fin 0) (Fin 0) (Fin 200) (Fin 100),
      SetFont ''25px Arial'',
      SetFillStyle ''0,0,0'',
      FillText 42 (Fin (- 100)) (Fin 175),
      BeginPath,
      Arc (Fin 50) (Fin 50) (Fin 50) (Fin 0) (Fin (2 * pi)) False,
      SetFillStyle ''red'',
      Fill]"


section \<open>Numbers\<close>

lemma js_le_not_gt: "js_le a b \<Longrightarrow> \<not> js_gt a b"
  by (cases a; cases b) auto

lemma js_lt_not_gt: "js_lt a b \<Longrightarrow> \<not> js_gt a b"
  by (cases a; cases b) (auto simp: js_lt_def)

lemma negative_not_gt: "js_lt x (Fin 0) \<Longrightarrow> \<not> js_gt x (js_of_nat k)"
  by (cases x) (auto simp: js_lt_def js_of_nat_def)

lemma trunc_nonneg: "0 \<le> r \<Longrightarrow> trunc r = \<lfloor>r\<rfloor>"
  by (simp add: trunc_def)

lemma cell_y_nat: "0 < k \<Longrightarrow> cell_y (js_of_nat k) i = js_of_nat (i div k)"
  by (simp add: cell_y_def js_of_nat_def floor_divide_of_nat_eq)

lemma cell_x_nat:
  assumes "0 < k"
  shows "cell_x (js_of_nat k) i = js_of_nat (i mod k)"
proof -
  have t: "trunc (real i / real k) = int (i div k)"
    by (simp add: trunc_nonneg floor_divide_of_nat_eq)
  have "real i - real k * real (i div k) = real (i mod k)"
    by (metis add_diff_cancel_left' mult_div_mod_eq of_nat_add of_nat_mult)
  with assms t show ?thesis
    by (simp add: cell_x_def js_of_nat_def)
qed

lemma cell_in_grid:
  assumes "i < k * r"
  shows "js_lt (cell_x (js_of_nat k) i) (js_of_nat k) \<and> js_lt (cell_y (js_of_nat k) i) (js_of_nat r)"
proof -
  from assms have k: "0 < k" by (cases k) auto
  from assms have "i div k < r"
    by (simp add: less_mult_imp_div_less mult.commute)
  moreover from k have "i mod k < k" by simp
  ultimately have "js_lt (js_of_nat (i mod k)) (js_of_nat k) \<and> js_lt (js_of_nat (i div k)) (js_of_nat r)"
    by (simp add: js_lt_def js_of_nat_def)
  with k show ?thesis
    by (simp only: cell_x_nat cell_y_nat)
qed


section \<open>Drawing\<close>

lemma render_cell_ok:
  assumes "\<not> js_gt (cell_x K i) (cols c)" "\<not> js_gt (cell_y K i) (rows c)"
  shows "\<exists>c'. render_cell K byte i c = Inr c' \<and> cols c' = cols c \<and> rows c' = rows c"
  using assms by (simp add: render_cell_def drawBlock_def drawBall_def Let_def)

lemma forEach_ok:
  "\<forall>j<length bytes. \<not> js_gt (cell_x K (i + j)) (cols c) \<and> \<not> js_gt (cell_y K (i + j)) (rows c)
   \<Longrightarrow> \<exists>c'. forEach (render_cell K) bytes i c = Inr c'"
proof (induction bytes arbitrary: i c)
  case Nil
  then show ?case by simp
next
  case (Cons b bytes)
  from Cons.prems have "\<not> js_gt (cell_x K i) (cols c)" "\<not> js_gt (cell_y K i) (rows c)"
    by force+
  then obtain c1 where c1: "render_cell K b i c = Inr c1" "cols c1 = cols c" "rows c1 = rows c"
    using render_cell_ok by blast
  have "\<forall>j<length bytes.
          \<not> js_gt (cell_x K (Suc i + j)) (cols c1) \<and> \<not> js_gt (cell_y K (Suc i + j)) (rows c1)"
  proof (intro allI impI)
    fix j
    assume "j < length bytes"
    then have "Suc j < length (b # bytes)" by simp
    with Cons.prems
    have "\<not> js_gt (cell_x K (i + Suc j)) (cols c) \<and> \<not> js_gt (cell_y K (i + Suc j)) (rows c)"
      by blast
    with c1
    show "\<not> js_gt (cell_x K (Suc i + j)) (cols c1) \<and> \<not> js_gt (cell_y K (Suc i + j)) (rows c1)"
      by simp
  qed
  from Cons.IH [OF this] c1 show ?case by simp
qed

lemma forEach_append:
  "forEach f (pre @ post) i c =
     (case forEach f pre i c of Inl t \<Rightarrow> Inl t | Inr c' \<Rightarrow> forEach f post (i + length pre) c')"
  by (induction pre arbitrary: i c) (auto split: sum.splits)

lemma forEach_read_cells:
  "a + n \<le> length buffer \<Longrightarrow>
     forEach f (take n (drop a buffer)) i c = read_cells f buffer a n i c"
proof (induction n arbitrary: a i c)
  case 0
  then show ?case by simp
next
  case (Suc n)
  then have "a < length buffer" by simp
  then have "take (Suc n) (drop a buffer) = buffer ! a # take n (drop (Suc a) buffer)"
    by (simp add: Cons_nth_drop_Suc [symmetric])
  moreover from Suc.prems have "Suc a + n \<le> length buffer" by simp
  ultimately show ?case using Suc.IH by (simp split: sum.splits)
qed

lemma render_read_cells:
  "render R g =
     (let header = drawScore (game_score R (game g)) (drawBorder (clear (canvas g)))
      in if game_display R (game g) + game_display_len R (game g)
              \<le> length (wasm_memory R (game g))
         then read_cells (render_cell (js_of_nat (game_cols R (game g))))
                (wasm_memory R (game g)) (game_display R (game g))
                (game_display_len R (game g)) 0 header
         else Inl (RangeError, header))"
  by (simp add: render_def Uint8Array_def Let_def forEach_read_cells)

lemma render_cell_ctx: "\<exists>rest. ctx (surface (render_cell K byte i c)) = ctx c @ rest"
  by (simp add: render_cell_def drawBlock_def drawBall_def Let_def surface_def)

lemma forEach_ctx: "\<exists>rest. ctx (surface (forEach (render_cell K) bytes i c)) = ctx c @ rest"
proof (induction bytes arbitrary: i c)
  case Nil
  then show ?case by (simp add: surface_def)
next
  case (Cons b bytes)
  show ?case
  proof (cases "render_cell K b i c")
    case (Inl t)
    with render_cell_ctx [of K b i c] show ?thesis by simp
  next
    case (Inr c1)
    with render_cell_ctx [of K b i c] obtain r1 where "ctx c1 = ctx c @ r1"
      by (auto simp: surface_def)
    moreover from Cons.IH [of "Suc i" c1] obtain r2
      where "ctx (surface (forEach (render_cell K) bytes (Suc i) c1)) = ctx c1 @ r2" by blast
    ultimately show ?thesis using Inr by simp
  qed
qed


section \<open>The example engine at work\<close>

lemma stub_game: "Game_new stub_element stub = \<lparr>game = 1, canvas = stub_canvas\<rparr>"
  by (simp add: Game_new_def stub_def stub_element_def stub_canvas_def Canvas_new_def js_of_nat_def)

lemma stub_view:
  "Uint8Array (wasm_memory stub s) (game_display stub s) (game_display_len stub s) = Inr [0, 4]"
  by (simp add: stub_def Uint8Array_def)

lemma stub_moved_view:
  "Uint8Array (wasm_memory stub_moved s) (game_display stub_moved s) (game_display_len stub_moved s)
     = Inr [0, 4]"
  by (simp add: stub_moved_def stub_def Uint8Array_def)

lemma stub_cells:
  "forEach (render_cell (Fin 2)) [0, 4] 0 c =
     drawBall (Fin 1) (Fin 0) (Some ''red'') c"
  by (simp add: render_cell_def cell_x_def cell_y_def js_of_nat_def trunc_def Let_def
      split: sum.splits)

lemma stub_cols: "js_of_nat (game_cols stub s) = Fin 2"
  by (simp add: stub_def js_of_nat_def)

lemma stub_render:
  "render stub \<lparr>game = s, canvas = stub_canvas\<rparr> = Inr (stub_canvas\<lparr>ctx := stub_frame\<rparr>)"
proof -
  let ?c3 = "drawScore (game_score stub s) (drawBorder (clear stub_canvas))"
  have "render stub \<lparr>game = s, canvas = stub_canvas\<rparr> = drawBall (Fin 1) (Fin 0) (Some ''red'') ?c3"
    by (simp add: render_def stub_view stub_cols stub_cells Let_def del: forEach.simps)
  also have "\<dots> = Inr (stub_canvas\<lparr>ctx := stub_frame\<rparr>)"
    by (simp add: stub_def stub_canvas_def stub_frame_def clear_def drawBorder_def
        drawScore_def drawBall_def color_or_navy_def js_sub_def Let_def)
  finally show ?thesis .
qed

lemma stub_step: "game_step stub s = (if s = 0 then None else Some (), s)"
  by (simp add: stub_def)

lemma stub_input: "game_input stub m s = s - 1"
  by (simp add: stub_def)

text \<open>
  The end-to-end example of the spec: one frame is drawn, with nothing at cell (0, 0) and
  the target at cell (1, 0), the move is committed, and the next decide stops the driver.
\<close>

lemma stub_run:
  "run stub 2 \<lparr>game = 1, canvas = stub_canvas\<rparr> =
     ([Decide 1 (Some ()), Render 1 None, Commit 1 (), Decide 0 None], Stopped,
      \<lparr>game = 0, canvas = stub_canvas\<lparr>ctx := stub_frame\<rparr>\<rparr>)"
  by (simp add: numeral_2_eq_2 stub_step stub_input stub_render)


lemma stub_flip_step: "game_step stub_flip s = (if s = 0 then None else Some (), s)"
  by (simp add: stub_flip_def stub_def)

lemma stub_flip_input: "game_input stub_flip m s = s - 1"
  by (simp add: stub_flip_def stub_def)

lemma stub_flip_cols: "js_of_nat (game_cols stub_flip s) = Fin 2"
  by (simp add: stub_flip_def stub_def js_of_nat_def)

lemma stub_flip_view:
  "Uint8Array (wasm_memory stub_flip s) (game_display stub_flip s) (game_display_len stub_flip s)
     = Inr (if s = 0 then [4, 0] else [0, 4])"
  by (simp add: stub_flip_def stub_def Uint8Array_def)

lemma stub_flip_cells:
  "forEach (render_cell (Fin 2)) [4, 0] 0 c = drawBall (Fin 0) (Fin 0) (Some ''red'') c"
  by (simp add: render_cell_def cell_x_def cell_y_def js_of_nat_def trunc_def Let_def
      split: sum.splits)

lemma stub_flip_render:
  "render stub_flip \<lparr>game = s, canvas = stub_canvas\<rparr> =
     Inr (stub_canvas\<lparr>ctx := (if s = 0 then stub_frame_after else stub_frame)\<rparr>)"
proof -
  let ?c3 = "drawScore (game_score stub_flip s) (drawBorder (clear stub_canvas))"
  have "render stub_flip \<lparr>game = s, canvas = stub_canvas\<rparr> =
          drawBall (if s = 0 then Fin 0 else Fin 1) (Fin 0) (Some ''red'') ?c3"
    by (simp add: render_def stub_flip_view stub_flip_cols stub_cells stub_flip_cells Let_def
        del: forEach.simps)
  also have "\<dots> = Inr (stub_canvas\<lparr>ctx := (if s = 0 then stub_frame_after else stub_frame)\<rparr>)"
    by (simp add: stub_flip_def stub_def stub_canvas_def stub_frame_def stub_frame_after_def
        clear_def drawBorder_def drawScore_def drawBall_def color_or_navy_def js_sub_def Let_def)
  finally show ?thesis .
qed

lemma stub_flip_run:
  "run stub_flip 2 \<lparr>game = 1, canvas = stub_canvas\<rparr> =
     ([Decide 1 (Some ()), Render 1 None, Commit 1 (), Decide 0 None], Stopped,
      \<lparr>game = 0, canvas = stub_canvas\<lparr>ctx := stub_frame\<rparr>\<rparr>)"
  by (simp add: numeral_2_eq_2 stub_flip_step stub_flip_input stub_flip_render)


section \<open>Traces\<close>

lemma Game_updates: "g\<lparr>canvas := c, game := s\<rparr> = \<lparr>game = s, canvas = c\<rparr>"
  by (cases g) simp

lemma run_replay: "run R n g = (evs, out, g') \<Longrightarrow> replay R g evs = Some g'"
  by (induction n arbitrary: g evs out g')
     (auto simp: Game_updates split: prod.splits option.splits sum.splits)

lemma run_cycles: "run R n g = (evs, out, g') \<Longrightarrow> cycles evs"
  by (induction n arbitrary: g evs out g') (auto split: prod.splits option.splits sum.splits)

lemma cycles_no_repeat: "cycles evs \<Longrightarrow> no_repeat rendered committed evs"
  by (induction evs arbitrary: rendered committed rule: cycles.induct) auto


section \<open>The claims\<close>

text \<open>
  Claim C1. In every cycle of the driver the engine calls come in the order decide,
  render, commit, and cycles do not interleave: whatever number of calls of
  \<^verbatim>\<open>run\<close> has started, the trace is a sequence of whole cycles (possibly ended by a
  decide without a move or by a render that threw), it never has two renders or two
  commits without a decide in between, and the game that \<^verbatim>\<open>run\<close> leaves behind is
  the one obtained by making the calls of the trace in their order: each render is
  \<^verbatim>\<open>render\<close> on the engine state that the decide of its cycle returned and that the
  commit of the cycle has not yet changed, each commit is \<^verbatim>\<open>input\<close> on that state.
\<close>

theorem run_decide_render_commit:
  "cycles (fst (run R n g)) \<and> no_repeat False False (fst (run R n g)) \<and>
   replay R g (fst (run R n g)) = Some (snd (snd (run R n g)))"
  using run_cycles [of R n g] run_replay [of R n g] cycles_no_repeat
  by (cases "run R n g") auto

text \<open>
  On the engine whose commit moves the target, the surface after the first cycle shows
  the target where it was before the commit, not where the engine has it afterwards.
\<close>

theorem run_decide_render_commit_witness:
  "fst (run stub_flip 2 \<lparr>game = 1, canvas = stub_canvas\<rparr>) =
     [Decide 1 (Some ()), Render 1 None, Commit 1 (), Decide 0 None] \<and>
   cycles (fst (run stub_flip 2 \<lparr>game = 1, canvas = stub_canvas\<rparr>)) \<and>
   no_repeat False False (fst (run stub_flip 2 \<lparr>game = 1, canvas = stub_canvas\<rparr>)) \<and>
   replay stub_flip \<lparr>game = 1, canvas = stub_canvas\<rparr>
     (fst (run stub_flip 2 \<lparr>game = 1, canvas = stub_canvas\<rparr>)) =
     Some \<lparr>game = 0, canvas = stub_canvas\<lparr>ctx := stub_frame\<rparr>\<rparr> \<and>
   render stub_flip \<lparr>game = 0, canvas = stub_canvas\<rparr> =
     Inr (stub_canvas\<lparr>ctx := stub_frame_after\<rparr>) \<and>
   stub_frame \<noteq> stub_frame_after"
proof -
  have r: "run stub_flip 2 \<lparr>game = 1, canvas = stub_canvas\<rparr> =
     ([Decide 1 (Some ()), Render 1 None, Commit 1 (), Decide 0 None], Stopped,
      \<lparr>game = 0, canvas = stub_canvas\<lparr>ctx := stub_frame\<rparr>\<rparr>)"
    by (rule stub_flip_run)
  have a: "render stub_flip \<lparr>game = 0, canvas = stub_canvas\<rparr> =
     Inr (stub_canvas\<lparr>ctx := stub_frame_after\<rparr>)"
    using stub_flip_render [of 0] by simp
  have d: "stub_frame \<noteq> stub_frame_after"
    by (simp add: stub_frame_def stub_frame_after_def)
  from run_decide_render_commit [of stub_flip 2 "\<lparr>game = 1, canvas = stub_canvas\<rparr>"] a d
  show ?thesis unfolding r by simp
qed

text \<open>
  Claim C2. \<^verbatim>\<open>drawBlock\<close> and \<^verbatim>\<open>drawBall\<close> do not throw when the column is at most
  \<open>cols\<close> and the row at most \<open>rows\<close>, and throw the out-of-bounds error when the column
  exceeds \<open>cols\<close> or the row exceeds \<open>rows\<close>; the test is a strict one, so the indices
  \<open>cols\<close> and \<open>rows\<close> themselves are accepted.
\<close>

theorem draw_bounds_check:
  "(js_le x (cols c) \<and> js_le y (rows c) \<longrightarrow>
      (\<exists>c'. drawBlock x y color c = Inr c') \<and> (\<exists>c'. drawBall x y color c = Inr c'))
   \<and> (js_gt x (cols c) \<or> js_gt y (rows c) \<longrightarrow>
      drawBlock x y color c = Inl (OutOfBounds x y, c) \<and>
      drawBall x y color c = Inl (OutOfBounds x y, c))"
  by (auto simp: drawBlock_def drawBall_def Let_def dest: js_le_not_gt)

theorem draw_bounds_check_witness:
  "js_le (Fin 2) (cols stub_canvas) \<and> js_le (Fin 1) (rows stub_canvas) \<and>
   (\<exists>c'. drawBlock (Fin 2) (Fin 1) None stub_canvas = Inr c') \<and>
   (\<exists>c'. drawBall (Fin 2) (Fin 1) None stub_canvas = Inr c') \<and>
   js_gt (Fin 3) (cols stub_canvas) \<and>
   drawBlock (Fin 3) (Fin 0) None stub_canvas = Inl (OutOfBounds (Fin 3) (Fin 0), stub_canvas) \<and>
   drawBall (Fin 3) (Fin 0) None stub_canvas = Inl (OutOfBounds (Fin 3) (Fin 0), stub_canvas)"
proof -
  have le: "js_le (Fin 2) (cols stub_canvas) \<and> js_le (Fin 1) (rows stub_canvas)"
    by (simp add: stub_canvas_def)
  have gt: "js_gt (Fin 3) (cols stub_canvas)"
    by (simp add: stub_canvas_def)
  from le gt show ?thesis
    using draw_bounds_check [of "Fin 2" stub_canvas "Fin 1" None]
      draw_bounds_check [of "Fin 3" stub_canvas "Fin 0" None]
    by blast
qed

text \<open>
  Claim C3, as stated: a byte outside 0 to 4 yields a decode-error marker for its cell.
  It does not: for the bytes 9 and 4 the callback leaves the surface untouched at byte 9
  and returns no error, and the whole iteration gives what it gives for the bytes 0 and 4.
\<close>

theorem unknown_byte_marker_counterexample:
  "render_cell (Fin 2) 9 0 stub_canvas = Inr stub_canvas \<and>
   forEach (render_cell (Fin 2)) [9, 4] 0 stub_canvas =
   forEach (render_cell (Fin 2)) [0, 4] 0 stub_canvas"
  by (simp add: render_cell_def Let_def)

text \<open>
  Claim C3, amended. A byte outside 0 to 4 does not make the rendering throw and does
  not stop it, and it is skipped without a trace: the cells before it are drawn, the
  byte itself draws nothing and flags nothing, the cells after it are drawn with their
  own indices, and the result is the one for the same bytes with 0 in its place.
\<close>

theorem unknown_byte_skipped:
  assumes "byte \<notin> {0, 1, 2, 3, 4}"
  shows "forEach (render_cell K) (pre @ byte # post) i c =
           (case forEach (render_cell K) pre i c of
              Inl thrown \<Rightarrow> Inl thrown
            | Inr c' \<Rightarrow> forEach (render_cell K) post (i + length pre + 1) c')
         \<and> forEach (render_cell K) (pre @ byte # post) i c =
           forEach (render_cell K) (pre @ 0 # post) i c"
proof -
  from assms have "render_cell K byte j d = Inr d" for j d
    by (simp add: render_cell_def Let_def)
  moreover have "render_cell K 0 j d = Inr d" for j d
    by (simp add: render_cell_def Let_def)
  ultimately show ?thesis
    by (simp add: forEach_append split: sum.splits)
qed

theorem unknown_byte_skipped_witness:
  "(9 :: 8 word) \<notin> {0, 1, 2, 3, 4} \<and>
   forEach (render_cell (Fin 2)) ([0] @ 9 # [4]) 0 stub_canvas =
     (case forEach (render_cell (Fin 2)) [0] 0 stub_canvas of
        Inl thrown \<Rightarrow> Inl thrown
      | Inr c' \<Rightarrow> forEach (render_cell (Fin 2)) [4] (0 + length [0 :: 8 word] + 1) c') \<and>
   forEach (render_cell (Fin 2)) ([0] @ 9 # [4]) 0 stub_canvas =
     forEach (render_cell (Fin 2)) ([0] @ 0 # [4]) 0 stub_canvas"
proof -
  have h: "(9 :: 8 word) \<notin> {0, 1, 2, 3, 4}" by simp
  from unknown_byte_skipped [OF h, of "Fin 2" "[0]" "[4]" 0 stub_canvas] h
  show ?thesis by blast
qed

text \<open>
  Claim C4. For a byte view of length \<open>cols * rows\<close> and an index into it, the callback
  of \<^verbatim>\<open>render\<close> computes the row as the integer quotient of the index by \<open>cols\<close> and
  the column as the remainder; with 4 columns and 3 rows, index 5 is column 1, row 1.
\<close>

theorem cell_coordinates:
  assumes "length view = k * r" and "i < length view"
  shows "cell_y (js_of_nat k) i = js_of_nat (i div k) \<and>
         cell_x (js_of_nat k) i = js_of_nat (i mod k)"
proof -
  from assms have "0 < k" by (cases k) auto
  then show ?thesis by (simp add: cell_x_nat cell_y_nat)
qed

theorem cell_coordinates_witness:
  "length (replicate 12 (0 :: 8 word)) = 4 * 3 \<and> 5 < length (replicate 12 (0 :: 8 word)) \<and>
   cell_y (js_of_nat 4) 5 = Fin 1 \<and> cell_x (js_of_nat 4) 5 = Fin 1"
proof -
  have h: "length (replicate 12 (0 :: 8 word)) = 4 * 3" "5 < length (replicate 12 (0 :: 8 word))"
    by simp_all
  from cell_coordinates [OF h] h show ?thesis
    by (simp add: js_of_nat_def)
qed

text \<open>
  Claim C5. The callback of \<^verbatim>\<open>render\<close> maps a cell byte to a draw operation in a
  fixed way: byte 0 draws nothing; byte 1 is a block in one colour; bytes 2 and 3 are
  blocks in one and the same second colour; byte 4 is a ball in a third colour.
\<close>

theorem colour_mapping:
  "render_cell K 0 i c = Inr c \<and>
   render_cell K 1 i c = drawBlock (cell_x K i) (cell_y K i) (Some ''black'') c \<and>
   render_cell K 2 i c = drawBlock (cell_x K i) (cell_y K i) (Some ''navy'') c \<and>
   render_cell K 3 i c = drawBlock (cell_x K i) (cell_y K i) (Some ''navy'') c \<and>
   render_cell K 4 i c = drawBall (cell_x K i) (cell_y K i) (Some ''red'') c \<and>
   distinct [''black'', ''navy'', ''red'']"
  by (simp add: render_cell_def Let_def)

text \<open>
  Claim C6. When a decide answers that there is no move, the driver neither renders nor
  commits in that cycle and stops for good: wherever such a decide stands in a trace,
  it is the last engine call of the trace however many further calls of \<^verbatim>\<open>run\<close>
  are allowed, no timer is pending, and the engine is left in the state the decide
  returned.
\<close>

theorem no_move_stops:
  "run R n g = (pre @ Decide s None # post, out, g') \<Longrightarrow>
     post = [] \<and> out = Stopped \<and> game g' = s"
proof (induction n arbitrary: g pre)
  case 0
  then show ?case by simp
next
  case (Suc n)
  obtain r s1 where st: "game_step R (game g) = (r, s1)"
    by (cases "game_step R (game g)")
  show ?case
  proof (cases r)
    case None
    with st Suc.prems show ?thesis
      by (auto simp: append_eq_Cons_conv Cons_eq_append_conv)
  next
    case (Some m)
    show ?thesis
    proof (cases "render R (g\<lparr>game := s1\<rparr>)")
      case (Inl thrown)
      with st Some Suc.prems show ?thesis
        by (auto simp: append_eq_Cons_conv Cons_eq_append_conv split: prod.splits)
    next
      case (Inr c)
      obtain evs out2 g2
        where rn: "run R n \<lparr>game = game_input R m s1, canvas = c\<rparr> = (evs, out2, g2)"
        by (cases "run R n \<lparr>game = game_input R m s1, canvas = c\<rparr>")
      with st Some Inr Suc.prems
      have eq: "pre @ Decide s None # post =
                  Decide s1 (Some m) # Render s1 None # Commit s1 m # evs"
        and o: "out = out2" "g' = g2"
        by auto
      from eq obtain pre' where "evs = pre' @ Decide s None # post"
        by (auto simp: append_eq_Cons_conv)
      with rn o Suc.IH show ?thesis by blast
    qed
  qed
qed

theorem no_move_stops_witness:
  "run stub 2 \<lparr>game = 1, canvas = stub_canvas\<rparr> =
     ([Decide 1 (Some ()), Render 1 None, Commit 1 ()] @ Decide 0 None # [], Stopped,
      \<lparr>game = 0, canvas = stub_canvas\<lparr>ctx := stub_frame\<rparr>\<rparr>)
   \<and> ([] :: (nat, unit) event list) = [] \<and> Stopped = Stopped
   \<and> game \<lparr>game = 0 :: nat, canvas = stub_canvas\<lparr>ctx := stub_frame\<rparr>\<rparr> = 0"
proof -
  have h: "run stub 2 \<lparr>game = 1, canvas = stub_canvas\<rparr> =
     ([Decide 1 (Some ()), Render 1 None, Commit 1 ()] @ Decide 0 None # [], Stopped,
      \<lparr>game = 0, canvas = stub_canvas\<lparr>ctx := stub_frame\<rparr>\<rparr>)"
    using stub_run by simp
  from no_move_stops [OF h] h show ?thesis by blast
qed

text \<open>
  Claim C7. A render builds its byte view anew from the memory as it is now, at the
  pointer and with the length the engine gives now, and keeps no view. First, whatever
  the game, \<^verbatim>\<open>render\<close> draws the clearing, the border and the score and then reads
  the cells out of the current memory from the current pointer on, as many as the current
  length says, or throws the range error when they do not fit. Second, what a render
  does is fixed by the surface, the score, the column count and these bytes: two engines
  in any two states that agree on them are rendered alike, whatever either did before.
  Third, every call of \<^verbatim>\<open>run\<close> that gets a move draws from the memory, the pointer
  and the length of the state that its own decide returned, and hands the next call the
  state after the commit, for which the same holds again: no view outlives a commit.
\<close>

theorem render_reads_current_view:
  "render R g =
     (let header = drawScore (game_score R (game g)) (drawBorder (clear (canvas g)))
      in if game_display R (game g) + game_display_len R (game g)
              \<le> length (wasm_memory R (game g))
         then read_cells (render_cell (js_of_nat (game_cols R (game g))))
                (wasm_memory R (game g)) (game_display R (game g))
                (game_display_len R (game g)) 0 header
         else Inl (RangeError, header))
   \<and> (game_score R s = game_score R' s' \<and>
       game_cols R s = game_cols R' s' \<and>
       Uint8Array (wasm_memory R s) (game_display R s) (game_display_len R s) =
       Uint8Array (wasm_memory R' s') (game_display R' s') (game_display_len R' s')
       \<longrightarrow> render R \<lparr>game = s, canvas = c\<rparr> = render R' \<lparr>game = s', canvas = c\<rparr>)
   \<and> (game_step R (game g) = (Some m, t) \<and>
       game_display R t + game_display_len R t \<le> length (wasm_memory R t)
       \<longrightarrow> (case read_cells (render_cell (js_of_nat (game_cols R t))) (wasm_memory R t)
                    (game_display R t) (game_display_len R t) 0
                    (drawScore (game_score R t) (drawBorder (clear (canvas g)))) of
               Inl (e, c') \<Rightarrow>
                 run R (Suc n) g =
                   ([Decide t (Some m), Render t (Some e)], Threw e, \<lparr>game = t, canvas = c'\<rparr>)
             | Inr c' \<Rightarrow>
                 run R (Suc n) g =
                   (Decide t (Some m) # Render t None # Commit t m #
                      fst (run R n \<lparr>game = game_input R m t, canvas = c'\<rparr>),
                    snd (run R n \<lparr>game = game_input R m t, canvas = c'\<rparr>))))"
proof (intro conjI impI)
  show "render R g =
     (let header = drawScore (game_score R (game g)) (drawBorder (clear (canvas g)))
      in if game_display R (game g) + game_display_len R (game g)
              \<le> length (wasm_memory R (game g))
         then read_cells (render_cell (js_of_nat (game_cols R (game g))))
                (wasm_memory R (game g)) (game_display R (game g))
                (game_display_len R (game g)) 0 header
         else Inl (RangeError, header))"
    by (rule render_read_cells)
next
  assume "game_score R s = game_score R' s' \<and>
       game_cols R s = game_cols R' s' \<and>
       Uint8Array (wasm_memory R s) (game_display R s) (game_display_len R s) =
       Uint8Array (wasm_memory R' s') (game_display R' s') (game_display_len R' s')"
  then show "render R \<lparr>game = s, canvas = c\<rparr> = render R' \<lparr>game = s', canvas = c\<rparr>"
    by (simp add: render_def Let_def split: sum.splits)
next
  assume h: "game_step R (game g) = (Some m, t) \<and>
       game_display R t + game_display_len R t \<le> length (wasm_memory R t)"
  let ?d = "read_cells (render_cell (js_of_nat (game_cols R t))) (wasm_memory R t)
              (game_display R t) (game_display_len R t) 0
              (drawScore (game_score R t) (drawBorder (clear (canvas g))))"
  from h have r: "render R (g\<lparr>game := t\<rparr>) = ?d"
    by (simp add: render_read_cells Let_def)
  show "case ?d of
          Inl (e, c') \<Rightarrow>
            run R (Suc n) g =
              ([Decide t (Some m), Render t (Some e)], Threw e, \<lparr>game = t, canvas = c'\<rparr>)
        | Inr c' \<Rightarrow>
            run R (Suc n) g =
              (Decide t (Some m) # Render t None # Commit t m #
                 fst (run R n \<lparr>game = game_input R m t, canvas = c'\<rparr>),
               snd (run R n \<lparr>game = game_input R m t, canvas = c'\<rparr>))"
  proof (cases ?d)
    case (Inl thrown)
    with h r show ?thesis
      by (cases thrown) simp
  next
    case (Inr c')
    with h r show ?thesis
      by (simp split: prod.splits)
  qed
qed

theorem render_reads_current_view_witness:
  "game_score stub 1 = game_score stub_moved 0 \<and>
   game_cols stub 1 = game_cols stub_moved 0 \<and>
   Uint8Array (wasm_memory stub 1) (game_display stub 1) (game_display_len stub 1) =
   Uint8Array (wasm_memory stub_moved 0) (game_display stub_moved 0) (game_display_len stub_moved 0) \<and>
   wasm_memory stub 1 \<noteq> wasm_memory stub_moved 0 \<and>
   render stub \<lparr>game = 1, canvas = stub_canvas\<rparr> = render stub_moved \<lparr>game = 0, canvas = stub_canvas\<rparr> \<and>
   game_step stub_flip (game \<lparr>game = 1, canvas = stub_canvas\<rparr>) = (Some (), 1) \<and>
   game_display stub_flip 1 + game_display_len stub_flip 1 \<le> length (wasm_memory stub_flip 1) \<and>
   read_cells (render_cell (js_of_nat (game_cols stub_flip 1))) (wasm_memory stub_flip 1)
     (game_display stub_flip 1) (game_display_len stub_flip 1) 0
     (drawScore (game_score stub_flip 1) (drawBorder (clear stub_canvas))) =
     Inr (stub_canvas\<lparr>ctx := stub_frame\<rparr>) \<and>
   run stub_flip (Suc 1) \<lparr>game = 1, canvas = stub_canvas\<rparr> =
     (Decide 1 (Some ()) # Render 1 None # Commit 1 () #
        fst (run stub_flip 1
               \<lparr>game = game_input stub_flip () 1, canvas = stub_canvas\<lparr>ctx := stub_frame\<rparr>\<rparr>),
      snd (run stub_flip 1
             \<lparr>game = game_input stub_flip () 1, canvas = stub_canvas\<lparr>ctx := stub_frame\<rparr>\<rparr>))"
proof -
  let ?g = "\<lparr>game = 1 :: nat, canvas = stub_canvas\<rparr>"
  have h: "game_score stub 1 = game_score stub_moved 0 \<and>
           game_cols stub 1 = game_cols stub_moved 0 \<and>
           Uint8Array (wasm_memory stub 1) (game_display stub 1) (game_display_len stub 1) =
           Uint8Array (wasm_memory stub_moved 0) (game_display stub_moved 0)
             (game_display_len stub_moved 0)"
    by (simp add: stub_view stub_moved_view) (simp add: stub_moved_def stub_def)
  have m: "wasm_memory stub 1 \<noteq> wasm_memory stub_moved 0"
    by (simp add: stub_moved_def stub_def)
  have k: "game_step stub_flip (game ?g) = (Some (), 1) \<and>
           game_display stub_flip 1 + game_display_len stub_flip 1
             \<le> length (wasm_memory stub_flip 1)"
    by (simp add: stub_flip_step) (simp add: stub_flip_def stub_def)
  note t1 = render_reads_current_view
    [where R = stub and s = 1 and R' = stub_moved and s' = 0 and c = stub_canvas and
       g = ?g and m = "()" and t = 1 and n = 1]
  note t2 = render_reads_current_view
    [where R = stub_flip and s = 1 and R' = stub_flip and s' = 1 and c = stub_canvas and
       g = ?g and m = "()" and t = 1 and n = 1]
  from t1 h have e: "render stub ?g = render stub_moved \<lparr>game = 0, canvas = stub_canvas\<rparr>"
    by blast
  from t2 k have rd: "render stub_flip ?g =
      read_cells (render_cell (js_of_nat (game_cols stub_flip 1))) (wasm_memory stub_flip 1)
        (game_display stub_flip 1) (game_display_len stub_flip 1) 0
        (drawScore (game_score stub_flip 1) (drawBorder (clear stub_canvas)))"
    by (simp add: Let_def)
  with stub_flip_render [of 1]
  have rc: "read_cells (render_cell (js_of_nat (game_cols stub_flip 1))) (wasm_memory stub_flip 1)
        (game_display stub_flip 1) (game_display_len stub_flip 1) 0
        (drawScore (game_score stub_flip 1) (drawBorder (clear stub_canvas))) =
        Inr (stub_canvas\<lparr>ctx := stub_frame\<rparr>)"
    by simp
  from t2 k rc
  have "run stub_flip (Suc 1) ?g =
     (Decide 1 (Some ()) # Render 1 None # Commit 1 () #
        fst (run stub_flip 1
               \<lparr>game = game_input stub_flip () 1, canvas = stub_canvas\<lparr>ctx := stub_frame\<rparr>\<rparr>),
      snd (run stub_flip 1
             \<lparr>game = game_input stub_flip () 1, canvas = stub_canvas\<lparr>ctx := stub_frame\<rparr>\<rparr>))"
    by (simp del: run.simps One_nat_def)
  with h m e k rc show ?thesis by blast
qed

text \<open>
  Claim C8. A render hands to \<^verbatim>\<open>drawScore\<close> the very value that the score accessor
  of the engine returns, and the score is written at the point with
  x = \<open>(cols - 3) * colWidth\<close> and y = \<open>1.75 * rowHeight\<close>: whether the render then
  completes or throws, the calls it adds to the context begin with the clearing, the
  border and this \<^verbatim>\<open>fillText\<close>.
\<close>

theorem render_draws_score:
  "\<exists>rest. ctx (surface (render R g)) =
     ctx (canvas g) @
     [ClearRect (Fin 0) (Fin 0) (width (canvas g)) (height (canvas g)),
      SetGlobalCompositeOperation ''source-over'',
      SetLineWidth (Fin 5),
      SetStrokeStyle ''#000000'',
      StrokeRect (Fin 0) (Fin 0) (width (canvas g)) (height (canvas g)),
      SetFont ''25px Arial'',
      SetFillStyle ''0,0,0'',
      FillText (game_score R (game g))
        (js_mul (js_sub (cols (canvas g)) (Fin 3)) (colWidth (canvas g)))
        (js_mul (Fin 1.75) (rowHeight (canvas g)))] @ rest"
proof (cases "Uint8Array (wasm_memory R (game g)) (game_display R (game g))
                (game_display_len R (game g))")
  case (Inl e)
  then show ?thesis
    by (simp add: render_def Let_def surface_def drawScore_def drawBorder_def clear_def)
next
  case (Inr view)
  let ?c3 = "drawScore (game_score R (game g)) (drawBorder (clear (canvas g)))"
  from forEach_ctx [of "js_of_nat (game_cols R (game g))" view 0 ?c3] obtain rest
    where "ctx (surface (forEach (render_cell (js_of_nat (game_cols R (game g)))) view 0 ?c3))
             = ctx ?c3 @ rest"
    by blast
  with Inr show ?thesis
    by (simp add: render_def Let_def drawScore_def drawBorder_def clear_def)
qed

text \<open>
  Claim C9. When the byte view has exactly \<open>cols * rows\<close> bytes, and the surface was built
  for these dimensions as the constructor of the game does, every index of the view gives
  a column below \<open>cols\<close> and a row below \<open>rows\<close>, so no bounds check fails and the render
  does not throw.
\<close>

theorem render_in_bounds:
  assumes "cols (canvas g) = js_of_nat (game_cols R (game g))"
      and "rows (canvas g) = js_of_nat (game_rows R (game g))"
      and "Uint8Array (wasm_memory R (game g)) (game_display R (game g))
             (game_display_len R (game g)) = Inr view"
      and "length view = game_cols R (game g) * game_rows R (game g)"
  shows "(\<forall>i<length view.
            js_lt (cell_x (js_of_nat (game_cols R (game g))) i) (cols (canvas g)) \<and>
            js_lt (cell_y (js_of_nat (game_cols R (game g))) i) (rows (canvas g)))
         \<and> (\<exists>c'. render R g = Inr c')"
proof -
  let ?K = "js_of_nat (game_cols R (game g))"
  let ?c3 = "drawScore (game_score R (game g)) (drawBorder (clear (canvas g)))"
  have grid: "\<forall>i<length view.
                js_lt (cell_x ?K i) (cols (canvas g)) \<and> js_lt (cell_y ?K i) (rows (canvas g))"
    using assms(1,2,4) cell_in_grid by simp
  have f: "cols ?c3 = cols (canvas g)" "rows ?c3 = rows (canvas g)"
    by (simp_all add: drawScore_def drawBorder_def clear_def)
  from grid f
  have "\<forall>j<length view.
          \<not> js_gt (cell_x ?K (0 + j)) (cols ?c3) \<and> \<not> js_gt (cell_y ?K (0 + j)) (rows ?c3)"
    by (simp add: js_lt_not_gt)
  from forEach_ok [OF this] assms(3) have "\<exists>c'. render R g = Inr c'"
    by (simp add: render_def Let_def)
  with grid show ?thesis by blast
qed

theorem render_in_bounds_witness:
  "cols (canvas (Game_new stub_element stub)) =
     js_of_nat (game_cols stub (game (Game_new stub_element stub))) \<and>
   rows (canvas (Game_new stub_element stub)) =
     js_of_nat (game_rows stub (game (Game_new stub_element stub))) \<and>
   Uint8Array (wasm_memory stub (game (Game_new stub_element stub)))
     (game_display stub (game (Game_new stub_element stub)))
     (game_display_len stub (game (Game_new stub_element stub))) = Inr [0, 4] \<and>
   length [0 :: 8 word, 4] =
     game_cols stub (game (Game_new stub_element stub)) *
     game_rows stub (game (Game_new stub_element stub)) \<and>
   (\<exists>c'. render stub (Game_new stub_element stub) = Inr c')"
proof -
  let ?g = "Game_new stub_element stub"
  have h1: "cols (canvas ?g) = js_of_nat (game_cols stub (game ?g))"
    by (simp add: stub_game stub_cols) (simp add: stub_canvas_def)
  have h2: "rows (canvas ?g) = js_of_nat (game_rows stub (game ?g))"
    by (simp add: stub_game) (simp add: stub_canvas_def stub_def js_of_nat_def)
  have h3: "Uint8Array (wasm_memory stub (game ?g)) (game_display stub (game ?g))
              (game_display_len stub (game ?g)) = Inr [0, 4]"
    by (rule stub_view)
  have h4: "length [0 :: 8 word, 4] = game_cols stub (game ?g) * game_rows stub (game ?g)"
    by (simp add: stub_def)
  from render_in_bounds [OF h1 h2 h3 h4] h1 h2 h3 h4 show ?thesis by blast
qed

text \<open>
  Claim C10. A negative column or a negative row is never a reason for
  \<^verbatim>\<open>drawBlock\<close> or \<^verbatim>\<open>drawBall\<close> to throw, because the validation rejects only what
  exceeds an upper bound. The surface is one whose \<open>cols\<close> and \<open>rows\<close> are counts: the
  class is private to the file and its only instance is built from the dimensions of
  the engine. On it, with a negative column the two methods throw exactly when the row
  exceeds \<open>rows\<close>, with a negative row exactly when the column exceeds \<open>cols\<close>, and with
  both negative never; the call then draws, at the negative position, what it draws
  anywhere else. No coordinate is too negative for this.
\<close>

theorem negative_coordinates_accepted:
  assumes "cols c = js_of_nat k" and "rows c = js_of_nat r"
  shows "(js_lt x (Fin 0) \<longrightarrow>
            (drawBlock x y color c = Inl (OutOfBounds x y, c) \<longleftrightarrow> js_gt y (rows c)) \<and>
            (drawBall x y color c = Inl (OutOfBounds x y, c) \<longleftrightarrow> js_gt y (rows c)) \<and>
            ((\<exists>c'. drawBlock x y color c = Inr c') \<longleftrightarrow> \<not> js_gt y (rows c)) \<and>
            ((\<exists>c'. drawBall x y color c = Inr c') \<longleftrightarrow> \<not> js_gt y (rows c)))
       \<and> (js_lt y (Fin 0) \<longrightarrow>
            (drawBlock x y color c = Inl (OutOfBounds x y, c) \<longleftrightarrow> js_gt x (cols c)) \<and>
            (drawBall x y color c = Inl (OutOfBounds x y, c) \<longleftrightarrow> js_gt x (cols c)) \<and>
            ((\<exists>c'. drawBlock x y color c = Inr c') \<longleftrightarrow> \<not> js_gt x (cols c)) \<and>
            ((\<exists>c'. drawBall x y color c = Inr c') \<longleftrightarrow> \<not> js_gt x (cols c)))
       \<and> (js_lt x (Fin 0) \<and> js_lt y (Fin 0) \<longrightarrow>
            drawBlock x y color c =
              Inr (c\<lparr>ctx := ctx c @
                     [BeginPath,
                      Rect (js_mul (colWidth c) x) (js_mul (rowHeight c) y)
                        (colWidth c) (rowHeight c),
                      SetFillStyle (color_or_navy color),
                      Fill]\<rparr>) \<and>
            drawBall x y color c =
              Inr (c\<lparr>ctx := ctx c @
                     [BeginPath,
                      Arc (js_mul (colWidth c) (js_add x (Fin 0.5)))
                        (js_mul (rowHeight c) (js_add y (Fin 0.5)))
                        (js_div (rowHeight c) (Fin 2)) (Fin 0) (js_mul (Fin 2) (Fin pi)) False,
                      SetFillStyle (color_or_navy color),
                      Fill]\<rparr>))
       \<and> ((js_lt x (Fin 0) \<or> js_le x (cols c)) \<and> (js_lt y (Fin 0) \<or> js_le y (rows c)) \<longrightarrow>
            (\<exists>c'. drawBlock x y color c = Inr c') \<and> (\<exists>c'. drawBall x y color c = Inr c'))"
  using assms negative_not_gt [of x k] negative_not_gt [of y r]
    js_le_not_gt [of x "cols c"] js_le_not_gt [of y "rows c"]
  by (auto simp: drawBlock_def drawBall_def Let_def)

theorem negative_coordinates_accepted_witness:
  "cols stub_canvas = js_of_nat 2 \<and> rows stub_canvas = js_of_nat 1 \<and>
   js_lt (Fin (- 1000)) (Fin 0) \<and> js_lt (Fin (- 3)) (Fin 0) \<and>
   drawBlock (Fin (- 1000)) (Fin (- 3)) None stub_canvas =
     Inr (stub_canvas\<lparr>ctx := [BeginPath, Rect (Fin (- 100000)) (Fin (- 300)) (Fin 100) (Fin 100),
                               SetFillStyle ''navy'', Fill]\<rparr>) \<and>
   js_le (Fin 1) (rows stub_canvas) \<and>
   (\<exists>c'. drawBlock (Fin (- 1000)) (Fin 1) None stub_canvas = Inr c') \<and>
   (\<exists>c'. drawBall (Fin (- 1000)) (Fin 1) None stub_canvas = Inr c') \<and>
   js_gt (Fin 2) (rows stub_canvas) \<and>
   drawBlock (Fin (- 1000)) (Fin 2) None stub_canvas =
     Inl (OutOfBounds (Fin (- 1000)) (Fin 2), stub_canvas)"
proof -
  have h: "cols stub_canvas = js_of_nat 2" "rows stub_canvas = js_of_nat 1"
    by (simp_all add: stub_canvas_def js_of_nat_def)
  have x: "js_lt (Fin (- 1000)) (Fin 0)" and y: "js_lt (Fin (- 3)) (Fin 0)"
    by (simp_all add: js_lt_def)
  have le: "js_le (Fin 1) (rows stub_canvas)" and gt: "js_gt (Fin 2) (rows stub_canvas)"
    by (simp_all add: stub_canvas_def)
  note t = negative_coordinates_accepted [OF h, where x = "Fin (- 1000)" and color = None]
  from t [where y = "Fin (- 3)"] x y
  have a: "drawBlock (Fin (- 1000)) (Fin (- 3)) None stub_canvas =
     Inr (stub_canvas\<lparr>ctx := [BeginPath, Rect (Fin (- 100000)) (Fin (- 300)) (Fin 100) (Fin 100),
                               SetFillStyle ''navy'', Fill]\<rparr>)"
    by (simp add: stub_canvas_def color_or_navy_def)
  from t [where y = "Fin 1"] x le
  have b: "(\<exists>c'. drawBlock (Fin (- 1000)) (Fin 1) None stub_canvas = Inr c') \<and>
           (\<exists>c'. drawBall (Fin (- 1000)) (Fin 1) None stub_canvas = Inr c')"
    by blast
  from t [where y = "Fin 2"] x gt
  have c: "drawBlock (Fin (- 1000)) (Fin 2) None stub_canvas =
             Inl (OutOfBounds (Fin (- 1000)) (Fin 2), stub_canvas)"
    by blast
  from h x y a le b gt c show ?thesis by blast
qed

end
